theory Spec2Isabelle
  imports Complex_Main
begin

section \<open>Python values used by the streamer\<close>

text \<open>
  Python integers are unbounded: \<open>int\<close>. Python floats (timestamps, sample amplitudes,
  frequencies, a fractional \<open>on_time\<close>, the result of true division \<open>/\<close>) are modelled by
  exact rationals, so a property proved here is a property of the arithmetic the code writes
  down, before rounding.
\<close>

type_synonym channel = "rat list"

type_synonym board_data = "rat list list"

text \<open>The exceptions that the modelled code paths can raise or meet.\<close>

datatype exn = ValueError | IndexError | AttributeError | BrainFlowError

text \<open>Python's \<open>a / b\<close> on two integers (true division).\<close>

definition true_div :: "int \<Rightarrow> int \<Rightarrow> rat" where
  "true_div a b = of_int a / of_int b"

text \<open>
  Python's \<open>int(x)\<close> on a number: truncation towards zero (the identity on an integer).
\<close>

definition py_int :: "rat \<Rightarrow> int" where
  "py_int x = (if 0 \<le> x then \<lfloor>x\<rfloor> else \<lceil>x\<rceil>)"

text \<open>
  The \<open>trigger\<close> argument of \<open>write_trigger\<close>, as that method observes it: it is compared
  with the empty string, and otherwise only read through \<open>int(trigger)\<close>.
  \<open>TEmpty\<close> is \<open>''\<close>; \<open>TInt v\<close> is the integer \<open>v\<close>, or any other value that \<open>int\<close>
  converts to \<open>v\<close> (such as the string \<open>'3'\<close>); \<open>TBad\<close> is a value that \<open>int\<close> rejects.
\<close>

datatype trigger = TEmpty | TInt int | TBad

definition int_of_trigger :: "trigger \<Rightarrow> exn + int" where
  "int_of_trigger t = (case t of TInt v \<Rightarrow> Inr v | TEmpty \<Rightarrow> Inl ValueError | TBad \<Rightarrow> Inl ValueError)"

text \<open>
  The text of an input box, as the filter code observes it: it is compared with \<open>''\<close> and
  converted by \<open>float\<close>. \<open>Blank\<close> is the empty text, \<open>Num r\<close> a text that \<open>float\<close> converts
  to \<open>r\<close>, \<open>Junk\<close> a text that \<open>float\<close> rejects.
\<close>

datatype field = Blank | Num rat | Junk

definition py_float :: "field \<Rightarrow> exn + rat" where
  "py_float t = (case t of Num r \<Rightarrow> Inr r | Blank \<Rightarrow> Inl ValueError | Junk \<Rightarrow> Inl ValueError)"

section \<open>Collaborators\<close>

text \<open>
  The board, the classifier and the thread pool are objects outside the streamer. The model
  records the calls they carry out, in order, with their arguments. The board refuses the
  marker 0 (see \<open>board_insert_marker\<close> below); every other call is taken to return normally.
\<close>

datatype call =
    InsertMarker int
  | GetCurrentBoardData int
  | SetPredictionMode bool
  | Train board_data bool
  | Submit board_data

text \<open>
  The filter controls of the GUI: the two check boxes, the two bandpass boxes, and the notch
  box already split at commas.
\<close>

record filter_ui =
  bandpass_checked :: bool
  bandpass_box_low :: field
  bandpass_box_high :: field
  notch_checked :: bool
  notch_box :: "field list"

text \<open>
  What a method reads from outside during one call: the clock (\<open>time.time()\<close>), the GUI, the
  window the board returns for \<open>get_current_board_data(n)\<close>, and the in-place operations of
  \<open>DataFilter\<close>. An in-place operation maps the buffer to its new contents and to the
  exception it raised, if any. \<open>perform_bandpass\<close> and \<open>perform_bandstop\<close> take the sampling
  rate and the two frequencies; the order, filter type and ripple are fixed by the defaults.
\<close>

record env =
  now :: rat
  ui :: filter_ui
  board_window :: "int \<Rightarrow> board_data"
  detrend :: "channel \<Rightarrow> channel \<times> exn option"
  perform_bandpass :: "int \<Rightarrow> rat \<Rightarrow> rat \<Rightarrow> channel \<Rightarrow> channel \<times> exn option"
  perform_bandstop :: "int \<Rightarrow> rat \<Rightarrow> rat \<Rightarrow> channel \<Rightarrow> channel \<times> exn option"

text \<open>
  \<open>DataFilter.detrend(ch_data, DetrendOperations.CONSTANT.value)\<close> of the signal library:
  the mean of the buffer is subtracted from every sample; an empty buffer is refused.
\<close>

definition mean :: "channel \<Rightarrow> rat" where
  "mean xs = sum_list xs / of_nat (length xs)"

definition detrend_constant :: "channel \<Rightarrow> channel \<times> exn option" where
  "detrend_constant xs =
     (if xs = [] then (xs, Some BrainFlowError) else (map (\<lambda>x. x - mean xs) xs, None))"

section \<open>The streamer object\<close>

text \<open>
  The values \<open>__init__\<close> reads: \<open>nclasses\<close>, \<open>on_time\<close> and the threshold table from the
  YAML file, the sampling rate and the layout from the board. \<open>on_time\<close> is a number of
  milliseconds that the YAML file may give with a fraction; \<open>nclasses\<close> is a count.
\<close>

record config =
  cfg_nclasses :: int
  cfg_on_time :: rat
  cfg_quality_thresholds :: "(rat \<times> rat \<times> string \<times> rat) list"
  cfg_sampling_rate :: int
  cfg_eeg_start :: nat
  cfg_eeg_end :: nat
  cfg_eeg_channels :: nat

text \<open>
  The fields of \<open>self\<close> that the modelled methods read or write. \<open>classifier_ready\<close> says
  that \<open>self.classifier\<close> is no longer \<open>None\<close>; \<open>start_training_time\<close> is \<open>None\<close> until
  \<open>set_train_start\<close> creates the attribute; \<open>n_eeg_channels\<close> is \<open>len(self.eeg_channels)\<close>;
  \<open>eeg_start\<close> and \<open>eeg_end\<close> are the entries of the board's layout; \<open>calls\<close> is the
  record of calls to collaborators, oldest first.
\<close>

record streamer =
  nclasses :: int
  on_time :: rat
  quality_thresholds :: "(rat \<times> rat \<times> string \<times> rat) list"
  sampling_rate :: int
  eeg_start :: nat
  eeg_end :: nat
  n_eeg_channels :: nat
  off_time :: rat
  prediction_interval :: int
  prediction_datapoints :: int
  prediction_mode :: bool
  first_prediction :: bool
  classifier_ready :: bool
  over_sample :: bool
  start_training_time :: "rat option"
  calls :: "call list"

text \<open>The default of \<open>config.get('quality_thresholds', ...)\<close>.\<close>

definition default_quality_thresholds :: "(rat \<times> rat \<times> string \<times> rat) list" where
  "default_quality_thresholds =
     [(-100, -50, ''yellow'', 1/2), (-50, 50, ''green'', 1), (50, 100, ''yellow'', 1/2)]"

text \<open>
  \<open>Streamer.__init__\<close>, the fields above:
  \<^verbatim>\<open>self.off_time = (self.on_time * (self.nclasses - 1))\<close>,
  \<^verbatim>\<open>self.prediction_interval = int(self.on_time + self.off_time) * 2\<close> (the sum is
  truncated, then doubled),
  \<^verbatim>\<open>self.prediction_datapoints = int(self.prediction_interval * self.sampling_rate / 1000)\<close>.
\<close>

definition init :: "config \<Rightarrow> streamer" where
  "init c =
     (let off = cfg_on_time c * of_int (cfg_nclasses c - 1);
          interval = py_int (cfg_on_time c + off) * 2;
          datapoints = py_int (true_div (interval * cfg_sampling_rate c) 1000)
      in \<lparr> nclasses = cfg_nclasses c,
           on_time = cfg_on_time c,
           quality_thresholds = cfg_quality_thresholds c,
           sampling_rate = cfg_sampling_rate c,
           eeg_start = cfg_eeg_start c,
           eeg_end = cfg_eeg_end c,
           n_eeg_channels = cfg_eeg_channels c,
           off_time = off,
           prediction_interval = interval,
           prediction_datapoints = datapoints,
           prediction_mode = False,
           first_prediction = True,
           classifier_ready = False,
           over_sample = False,
           start_training_time = None,
           calls = [] \<rparr>)"

text \<open>\<open>init_classifier\<close>, run by the classifier thread: \<open>self.classifier\<close> is set.\<close>

definition init_classifier :: "streamer \<Rightarrow> streamer" where
  "init_classifier st = st\<lparr>classifier_ready := True\<rparr>"

definition record_call :: "call \<Rightarrow> streamer \<Rightarrow> streamer" where
  "record_call c st = st\<lparr>calls := calls st @ [c]\<rparr>"

text \<open>
  \<open>self.board.insert_marker(value)\<close> of the acquisition library: 0 is the value the marker
  channel holds where there is no marker, and the board refuses it with \<open>BrainFlowError\<close>,
  inserting nothing; any other value is inserted into the stream.
\<close>

definition board_insert_marker :: "int \<Rightarrow> streamer \<Rightarrow> streamer \<times> exn option" where
  "board_insert_marker v st =
     (if v = 0 then (st, Some BrainFlowError) else (record_call (InsertMarker v) st, None))"

section \<open>Signal conditioning\<close>

text \<open>
  \<open>apply_bandpass_filter\<close>: the detrend comes first, then the three checks, each returning
  early, then the bandpass, whose \<open>ValueError\<close> is caught and logged.
\<close>

definition apply_bandpass_filter ::
  "streamer \<Rightarrow> env \<Rightarrow> channel \<Rightarrow> rat \<Rightarrow> rat \<Rightarrow> channel \<times> exn option" where
  "apply_bandpass_filter st env ch_data start_freq stop_freq =
     (case detrend env ch_data of
        (ch1, Some e) \<Rightarrow> (ch1, Some e)
      | (ch1, None) \<Rightarrow>
          if start_freq \<ge> stop_freq then (ch1, None)
          else if start_freq < 0 \<or> stop_freq < 0 then (ch1, None)
          else if start_freq > true_div (sampling_rate st) 2
                \<or> stop_freq > true_div (sampling_rate st) 2 then (ch1, None)
          else (case perform_bandpass env (sampling_rate st) start_freq stop_freq ch1 of
                  (ch2, ex) \<Rightarrow> (ch2, if ex = Some ValueError then None else ex)))"

text \<open>
  \<open>apply_notch_filter\<close>, first loop: \<open>Inl e\<close> when \<open>float(freq)\<close> raises, \<open>Inr False\<close> when
  a check returns early, \<open>Inr True\<close> when every frequency passes.
\<close>

fun notch_check :: "streamer \<Rightarrow> field list \<Rightarrow> exn + bool" where
  "notch_check st [] = Inr True"
| "notch_check st (freq # freqs) =
     (case py_float freq of
        Inl e \<Rightarrow> Inl e
      | Inr f \<Rightarrow>
          if f < 0 then Inr False
          else if f > true_div (sampling_rate st) 2 then Inr False
          else notch_check st freqs)"

text \<open>Second loop, inside the \<open>try\<close>: one band-stop of bandwidth 2 around each frequency.\<close>

fun notch_apply :: "streamer \<Rightarrow> env \<Rightarrow> field list \<Rightarrow> channel \<Rightarrow> channel \<times> exn option" where
  "notch_apply st env [] ch_data = (ch_data, None)"
| "notch_apply st env (freq # freqs) ch_data =
     (case py_float freq of
        Inl e \<Rightarrow> (ch_data, Some e)
      | Inr f \<Rightarrow>
          (case perform_bandstop env (sampling_rate st) (f - 2) (f + 2) ch_data of
             (ch1, Some e) \<Rightarrow> (ch1, Some e)
           | (ch1, None) \<Rightarrow> notch_apply st env freqs ch1))"

definition apply_notch_filter ::
  "streamer \<Rightarrow> env \<Rightarrow> channel \<Rightarrow> field list \<Rightarrow> channel \<times> exn option" where
  "apply_notch_filter st env ch_data freqs =
     (case notch_check st freqs of
        Inl e \<Rightarrow> (ch_data, Some e)
      | Inr False \<Rightarrow> (ch_data, None)
      | Inr True \<Rightarrow>
          (case notch_apply st env freqs ch_data of
             (ch1, ex) \<Rightarrow> (ch1, if ex = Some ValueError then None else ex)))"

text \<open>
  The body of the loop of \<open>filter_data_buffer\<close> for one channel.
  \<^verbatim>\<open>float(box.text()) if box.text() != '' else 0\<close> is \<open>bandpass_freq\<close>.
\<close>

definition bandpass_freq :: "field \<Rightarrow> exn + rat" where
  "bandpass_freq t = (if t \<noteq> Blank then py_float t else Inr 0)"

definition bandpass_stage :: "streamer \<Rightarrow> env \<Rightarrow> channel \<Rightarrow> channel \<times> exn option" where
  "bandpass_stage st env ch_data =
     (if bandpass_checked (ui env) then
        (case bandpass_freq (bandpass_box_low (ui env)) of
           Inl e \<Rightarrow> (ch_data, Some e)
         | Inr start_freq \<Rightarrow>
             (case bandpass_freq (bandpass_box_high (ui env)) of
                Inl e \<Rightarrow> (ch_data, Some e)
              | Inr stop_freq \<Rightarrow> apply_bandpass_filter st env ch_data start_freq stop_freq))
      else (ch_data, None))"

definition notch_stage :: "streamer \<Rightarrow> env \<Rightarrow> channel \<Rightarrow> channel \<times> exn option" where
  "notch_stage st env ch_data =
     (if notch_checked (ui env) then apply_notch_filter st env ch_data (notch_box (ui env))
      else (ch_data, None))"

definition filter_channel :: "streamer \<Rightarrow> env \<Rightarrow> channel \<Rightarrow> channel \<times> exn option" where
  "filter_channel st env ch_data =
     (case bandpass_stage st env ch_data of
        (ch1, Some e) \<Rightarrow> (ch1, Some e)
      | (ch1, None) \<Rightarrow> notch_stage st env ch1)"

text \<open>
  \<open>filter_data_buffer\<close>: \<open>eeg = data[start_eeg:end_eeg]\<close> is a view of the rows
  \<open>start_eeg\<close> up to \<open>min end_eeg (len data)\<close>, so \<open>eeg[count]\<close> is row
  \<open>start_eeg + count\<close> of \<open>data\<close> and raises \<open>IndexError\<close> beyond the view; the filters
  write into that row. The result is the buffer as the call leaves it, with the exception
  that ended the call, if any.
\<close>

fun filter_rows :: "streamer \<Rightarrow> env \<Rightarrow> nat list \<Rightarrow> board_data \<Rightarrow> board_data \<times> exn option" where
  "filter_rows st env [] data = (data, None)"
| "filter_rows st env (count # counts) data =
     (if count \<ge> min (eeg_end st) (length data) - eeg_start st then (data, Some IndexError)
      else
        (case filter_channel st env (data ! (eeg_start st + count)) of
           (ch1, Some e) \<Rightarrow> (data[eeg_start st + count := ch1], Some e)
         | (ch1, None) \<Rightarrow> filter_rows st env counts (data[eeg_start st + count := ch1])))"

definition filter_data_buffer :: "streamer \<Rightarrow> env \<Rightarrow> board_data \<Rightarrow> board_data \<times> exn option" where
  "filter_data_buffer st env data = filter_rows st env [0..<n_eeg_channels st] data"

text \<open>
  The requirement on the bandpass parameters as the specification words it:
  \<open>0 \<le> low < high \<le> samplingRate / 2\<close>.
\<close>

definition bandpass_params_ok :: "streamer \<Rightarrow> rat \<Rightarrow> rat \<Rightarrow> bool" where
  "bandpass_params_ok st low high =
     (0 \<le> low \<and> low < high \<and> high \<le> true_div (sampling_rate st) 2)"

section \<open>Prediction and training\<close>

text \<open>
  \<open>predict_class\<close>: the window is requested from the board, conditioned, and submitted to
  the thread pool; any exception on the way is caught and logged.
\<close>

definition predict_class :: "streamer \<Rightarrow> env \<Rightarrow> streamer" where
  "predict_class st env =
     (let st1 = record_call (GetCurrentBoardData (prediction_datapoints st)) st;
          data = board_window env (prediction_datapoints st)
      in (case filter_data_buffer st1 env data of
            (data1, None) \<Rightarrow> record_call (Submit data1) st1
          | (data1, Some e) \<Rightarrow> st1))"

text \<open>
  \<open>write_trigger\<close>. The result is the streamer after the call and the exception that left
  the call, if any.
\<close>

definition write_trigger :: "streamer \<Rightarrow> env \<Rightarrow> trigger \<Rightarrow> rat \<Rightarrow> streamer \<times> exn option" where
  "write_trigger st env trigger timestamp =
     (if trigger = TEmpty then (st, None)
      else
        let timestamp = (if timestamp = 0 then now env else timestamp) in
        (case int_of_trigger trigger of
           Inl e \<Rightarrow> (st, Some e)
         | Inr v \<Rightarrow>
             (case board_insert_marker v st of
                (st1, Some e) \<Rightarrow> (st1, Some e)
              | (st1, None) \<Rightarrow>
                  if prediction_mode st1 then
                    if v = nclasses st1 \<and> \<not> first_prediction st1 then (predict_class st1 env, None)
                    else if v = nclasses st1 \<and> first_prediction st1
                      then (st1\<lparr>first_prediction := False\<rparr>, None)
                    else (st1, None)
                  else (st1, None))))"

text \<open>\<open>set_prediction_mode\<close>: the flag is flipped, then the classifier is told.\<close>

definition set_prediction_mode :: "streamer \<Rightarrow> streamer \<times> exn option" where
  "set_prediction_mode st =
     (let st1 = st\<lparr>prediction_mode := \<not> prediction_mode st\<rparr> in
      if classifier_ready st1 then (record_call (SetPredictionMode (prediction_mode st1)) st1, None)
      else (st1, Some AttributeError))"

definition set_train_start :: "streamer \<Rightarrow> env \<Rightarrow> streamer" where
  "set_train_start st env = st\<lparr>start_training_time := Some (now env)\<rparr>"

definition train_classifier :: "streamer \<Rightarrow> env \<Rightarrow> streamer \<times> exn option" where
  "train_classifier st env =
     (let end_training_time = now env in
      case start_training_time st of
        None \<Rightarrow> (st, Some AttributeError)
      | Some t0 \<Rightarrow>
          let training_length = end_training_time - t0 + 1;
              training_interval = py_int (training_length * of_int (sampling_rate st));
              st1 = record_call (GetCurrentBoardData training_interval) st;
              data = board_window env training_interval
          in (case filter_data_buffer st1 env data of
                (data1, Some e) \<Rightarrow> (st1, Some e)
              | (data1, None) \<Rightarrow>
                  if classifier_ready st1 then (record_call (Train data1 (over_sample st1)) st1, None)
                  else (st1, Some AttributeError)))"

text \<open>
  The length of the training pull as the specification words it:
  \<open>floor((t1 - t0 + 1) * fs)\<close>.
\<close>

definition training_samples :: "rat \<Rightarrow> rat \<Rightarrow> int \<Rightarrow> int" where
  "training_samples t0 t1 fs = \<lfloor>(t1 - t0 + 1) * of_int fs\<rfloor>"

section \<open>Quality scoring\<close>

text \<open>
  \<open>np.percentile(a, q)\<close> with numpy's default linear interpolation: on the sorted values,
  the virtual index is \<open>(n - 1) * q / 100\<close> and the result interpolates between its two
  neighbours. \<open>None\<close> stands for an empty vector or a \<open>q\<close> outside 0..100, where numpy gives
  no number; the streamer passes rows of \<open>num_points\<close> samples and \<open>q = 75\<close>.
\<close>

definition percentile :: "channel \<Rightarrow> rat \<Rightarrow> rat option" where
  "percentile a q =
     (if a = [] \<or> q < 0 \<or> 100 < q then None
      else
        let s = sort a;
            h = of_nat (length s - 1) * q / 100;
            lo = nat \<lfloor>h\<rfloor>;
            hi = min (lo + 1) (length s - 1);
            g = h - of_int \<lfloor>h\<rfloor>
        in Some (s ! lo + g * (s ! hi - s ! lo)))"

text \<open>
  The loop of \<open>get_channel_quality\<close> over \<open>self.quality_thresholds\<close>; the third argument
  is the current \<open>(color, q_score)\<close>, and a match ends the loop (\<open>break\<close>).
\<close>

fun quality_scan :: "(rat \<times> rat \<times> string \<times> rat) list \<Rightarrow> rat \<Rightarrow> string \<times> rat \<Rightarrow> string \<times> rat" where
  "quality_scan [] amplitude cur = cur"
| "quality_scan ((low, high, color_name, score) # rest) amplitude cur =
     (if low \<le> amplitude \<and> amplitude \<le> high then (color_name, score)
      else quality_scan rest amplitude cur)"

definition get_channel_quality :: "streamer \<Rightarrow> channel \<Rightarrow> rat \<Rightarrow> (string \<times> rat \<times> rat) option" where
  "get_channel_quality st eeg threshold =
     (case percentile eeg threshold of
        None \<Rightarrow> None
      | Some amplitude \<Rightarrow>
          (case quality_scan (quality_thresholds st) amplitude (''red'', 0) of
             (color, q_score) \<Rightarrow> Some (color, amplitude, q_score)))"

text \<open>
  The lookup as the specification words it: the first row of the ordered table whose inclusive
  range holds the amplitude gives label and score, and \<open>(red, 0)\<close> is the fallback.
\<close>

definition in_bucket :: "rat \<Rightarrow> rat \<times> rat \<times> string \<times> rat \<Rightarrow> bool" where
  "in_bucket amplitude row = (case row of (low, high, label, score) \<Rightarrow> low \<le> amplitude \<and> amplitude \<le> high)"

definition first_match :: "(rat \<times> rat \<times> string \<times> rat) list \<Rightarrow> rat \<Rightarrow> string \<times> rat" where
  "first_match table amplitude =
     (case find (in_bucket amplitude) table of
        None \<Rightarrow> (''red'', 0)
      | Some (low, high, label, score) \<Rightarrow> (label, score))"

section \<open>Observing a run\<close>

text \<open>The calls that a method added to the record.\<close>

definition new_calls :: "streamer \<Rightarrow> streamer \<Rightarrow> call list" where
  "new_calls st st1 = drop (length (calls st)) (calls st1)"

fun is_submit :: "call \<Rightarrow> bool" where
  "is_submit (Submit d) = True"
| "is_submit c = False"

text \<open>
  One prediction request as the specification describes it: the window of
  \<open>prediction_datapoints\<close> samples is pulled from the board and conditioned, and the
  conditioned window is handed to the worker pool; a failure on the way is swallowed, and
  then nothing is handed over.
\<close>

definition prediction_request :: "streamer \<Rightarrow> env \<Rightarrow> call list" where
  "prediction_request st env =
     GetCurrentBoardData (prediction_datapoints st)
     # (case filter_data_buffer st env (board_window env (prediction_datapoints st)) of
          (data1, None) \<Rightarrow> [Submit data1]
        | (data1, Some e) \<Rightarrow> [])"

text \<open>
  A sequence of marker events, each delivered to \<open>write_trigger\<close> with what it reads from
  outside at that moment; the result lists the calls that each event added. An exception ends
  the call that raised it, and the next event meets the streamer as that call left it.
\<close>

fun deliver :: "streamer \<Rightarrow> (env \<times> trigger \<times> rat) list \<Rightarrow> call list list \<times> streamer" where
  "deliver st [] = ([], st)"
| "deliver st ((env, trigger, timestamp) # evs) =
     (let st1 = fst (write_trigger st env trigger timestamp) in
      case deliver st1 evs of (cs, st2) \<Rightarrow> (new_calls st st1 # cs, st2))"

text \<open>
  The methods that \<open>__init__\<close> connects to the signals of the marker thread
  (\<open>new_sample\<close>, \<open>start_predicting\<close> and \<open>stop_predicting\<close>, \<open>set_train_start\<close>,
  \<open>start_train\<close>), and the end of the classifier thread, as events; \<open>run\<close> lets any
  sequence of them act on the streamer.
\<close>

datatype event =
    Marker env trigger rat
  | TogglePredicting
  | TrainStart env
  | TrainCommit env
  | ClassifierReady

fun step :: "streamer \<Rightarrow> event \<Rightarrow> streamer" where
  "step st (Marker env trigger timestamp) = fst (write_trigger st env trigger timestamp)"
| "step st TogglePredicting = fst (set_prediction_mode st)"
| "step st (TrainStart env) = set_train_start st env"
| "step st (TrainCommit env) = fst (train_classifier st env)"
| "step st ClassifierReady = init_classifier st"

definition run :: "streamer \<Rightarrow> event list \<Rightarrow> streamer" where
  "run st evs = foldl step st evs"

section \<open>Example objects\<close>

definition example_config :: config where
  "example_config =
     \<lparr> cfg_nclasses = 4, cfg_on_time = 250, cfg_quality_thresholds = default_quality_thresholds,
       cfg_sampling_rate = 250, cfg_eeg_start = 1, cfg_eeg_end = 3, cfg_eeg_channels = 2 \<rparr>"

definition no_filters :: filter_ui where
  "no_filters =
     \<lparr> bandpass_checked = False, bandpass_box_low = Blank, bandpass_box_high = Blank,
       notch_checked = False, notch_box = [Blank] \<rparr>"

text \<open>
  An environment for examples: a board whose window has a counter row, two EEG rows and a
  marker row, and band filters that leave the buffer as it is.
\<close>

definition example_env :: env where
  "example_env =
     \<lparr> now = 1000, ui = no_filters,
       board_window = (\<lambda>n. [[0, 1], [1, 3], [10, 20], [0, 0]]),
       detrend = detrend_constant,
       perform_bandpass = (\<lambda>fs lo hi ch. (ch, None)),
       perform_bandstop = (\<lambda>fs lo hi ch. (ch, None)) \<rparr>"

text \<open>The example environment with the bandpass box ticked and the bounds 10 and 5.\<close>

definition bandpass_env :: env where
  "bandpass_env =
     example_env\<lparr>ui := no_filters\<lparr>bandpass_checked := True, bandpass_box_low := Num 10,
                                     bandpass_box_high := Num 5\<rparr>\<rparr>"

text \<open>The example environment with the notch box ticked and left empty.\<close>

definition blank_notch_env :: env where
  "blank_notch_env = example_env\<lparr>ui := no_filters\<lparr>notch_checked := True\<rparr>\<rparr>"


text \<open>A streamer whose classifier thread has finished, and the same after one toggle.\<close>

definition ready_streamer :: streamer where
  "ready_streamer = init_classifier (init example_config)"

definition predicting_streamer :: streamer where
  "predicting_streamer = fst (set_prediction_mode ready_streamer)"

text \<open>The predicting streamer after one boundary marker and a second toggle.\<close>

definition stopped_streamer :: streamer where
  "stopped_streamer =
     fst (set_prediction_mode (fst (write_trigger predicting_streamer example_env (TInt 4) 0)))"

lemmas example_defs = predicting_streamer_def ready_streamer_def set_prediction_mode_def
  init_classifier_def init_def example_config_def record_call_def Let_def true_div_def py_int_def
  board_insert_marker_def

lemmas example_filter_defs = filter_data_buffer_def filter_channel_def bandpass_stage_def
  notch_stage_def example_env_def no_filters_def upt_rec

section \<open>Timing arithmetic: results\<close>

lemma py_int_nonneg: "0 \<le> x \<Longrightarrow> py_int x = \<lfloor>x\<rfloor>"
  by (simp add: py_int_def)






section \<open>What the filters read\<close>

text \<open>
  The filters read the sampling rate and the layout of \<open>self\<close> and nothing else.
\<close>

lemma notch_check_self:
  "sampling_rate st1 = sampling_rate st \<Longrightarrow> notch_check st1 freqs = notch_check st freqs"
  by (induction freqs) (simp_all split: sum.splits)

lemma notch_apply_self:
  "sampling_rate st1 = sampling_rate st \<Longrightarrow> notch_apply st1 env freqs ch = notch_apply st env freqs ch"
  by (induction freqs arbitrary: ch) (simp_all split: sum.splits prod.splits option.splits)

lemma filter_channel_self:
  assumes "sampling_rate st1 = sampling_rate st"
  shows "filter_channel st1 env ch = filter_channel st env ch"
proof -
  have "apply_bandpass_filter st1 env c s e = apply_bandpass_filter st env c s e" for c s e
    using assms by (simp add: apply_bandpass_filter_def split: prod.splits option.splits)
  then have b: "bandpass_stage st1 env ch = bandpass_stage st env ch"
    by (simp add: bandpass_stage_def split: sum.splits)
  have "notch_stage st1 env c = notch_stage st env c" for c
    using assms
    by (simp add: notch_stage_def apply_notch_filter_def notch_check_self [OF assms]
        notch_apply_self [OF assms] split: sum.splits bool.splits)
  then show ?thesis using b by (simp add: filter_channel_def split: prod.splits option.splits)
qed

lemma filter_rows_self:
  assumes "sampling_rate st1 = sampling_rate st" "eeg_start st1 = eeg_start st" "eeg_end st1 = eeg_end st"
  shows "filter_rows st1 env counts data = filter_rows st env counts data"
  using assms
  by (induction counts arbitrary: data)
    (simp_all add: filter_channel_self [of st1 st] split: prod.splits option.splits)

lemma filter_data_buffer_self:
  assumes "sampling_rate st1 = sampling_rate st" "eeg_start st1 = eeg_start st" "eeg_end st1 = eeg_end st"
    "n_eeg_channels st1 = n_eeg_channels st"
  shows "filter_data_buffer st1 env data = filter_data_buffer st env data"
  using assms filter_rows_self [of st1 st] by (simp add: filter_data_buffer_def)

text \<open>The filters, and so \<open>predict_class\<close>, do not read the clock.\<close>

lemma apply_bandpass_filter_now:
  "apply_bandpass_filter st (env\<lparr>now := n\<rparr>) ch s e = apply_bandpass_filter st env ch s e"
  by (simp add: apply_bandpass_filter_def split: prod.splits option.splits)

lemma notch_apply_now:
  "notch_apply st (env\<lparr>now := n\<rparr>) freqs ch = notch_apply st env freqs ch"
  by (induction freqs arbitrary: ch) (simp_all split: sum.splits prod.splits option.splits)

lemma bandpass_stage_now:
  "bandpass_stage st (env\<lparr>now := n\<rparr>) ch = bandpass_stage st env ch"
  by (simp add: bandpass_stage_def apply_bandpass_filter_now split: sum.splits)

lemma notch_stage_now:
  "notch_stage st (env\<lparr>now := n\<rparr>) ch = notch_stage st env ch"
  by (simp add: notch_stage_def apply_notch_filter_def notch_apply_now split: sum.splits bool.splits)

lemma filter_channel_now:
  "filter_channel st (env\<lparr>now := n\<rparr>) ch = filter_channel st env ch"
  by (simp add: filter_channel_def bandpass_stage_now notch_stage_now split: prod.splits option.splits)

lemma filter_rows_now:
  "filter_rows st (env\<lparr>now := n\<rparr>) counts data = filter_rows st env counts data"
  by (induction counts arbitrary: data) (simp_all add: filter_channel_now split: prod.splits option.splits)

lemma predict_class_now:
  "predict_class st (env\<lparr>now := n\<rparr>) = predict_class st env"
  by (simp add: predict_class_def filter_data_buffer_def filter_rows_now)

section \<open>Marker routing: results\<close>

lemma prediction_request_self:
  assumes "sampling_rate st1 = sampling_rate st" "eeg_start st1 = eeg_start st"
    "eeg_end st1 = eeg_end st" "n_eeg_channels st1 = n_eeg_channels st"
    "prediction_datapoints st1 = prediction_datapoints st"
  shows "prediction_request st1 env = prediction_request st env"
  using assms filter_data_buffer_self [of st1 st env]
  by (simp add: prediction_request_def)

text \<open>\<open>predict_class\<close> makes one prediction request and changes nothing else.\<close>

lemma predict_class_eq:
  "predict_class st env = st\<lparr>calls := calls st @ prediction_request st env\<rparr>"
proof -
  let ?n = "prediction_datapoints st"
  have f: "filter_data_buffer (st\<lparr>calls := cs\<rparr>) env data = filter_data_buffer st env data"
    for cs data
    by (rule filter_data_buffer_self) simp_all
  obtain d ex where fd: "filter_data_buffer st env (board_window env ?n) = (d, ex)"
    by (cases "filter_data_buffer st env (board_window env ?n)")
  show ?thesis
    by (cases ex) (simp_all add: predict_class_def prediction_request_def Let_def f fd record_call_def)
qed

text \<open>\<open>write_trigger\<close>, case by case.\<close>

lemma write_trigger_empty: "write_trigger st env TEmpty ts = (st, None)"
  by (simp add: write_trigger_def)

lemma write_trigger_bad: "write_trigger st env TBad ts = (st, Some ValueError)"
  by (simp add: write_trigger_def int_of_trigger_def)

lemma write_trigger_zero: "write_trigger st env (TInt 0) ts = (st, Some BrainFlowError)"
  by (simp add: write_trigger_def int_of_trigger_def board_insert_marker_def)

lemma board_insert_marker_nonzero:
  "v \<noteq> 0 \<Longrightarrow> board_insert_marker v st = (st\<lparr>calls := calls st @ [InsertMarker v]\<rparr>, None)"
  by (simp add: board_insert_marker_def record_call_def)

lemma write_trigger_skip:
  assumes "v \<noteq> 0" and "prediction_mode st" and "v = nclasses st" and "first_prediction st"
  shows "write_trigger st env (TInt v) ts
     = (st\<lparr>first_prediction := False, calls := calls st @ [InsertMarker v]\<rparr>, None)"
  using assms
  by (simp add: write_trigger_def int_of_trigger_def board_insert_marker_nonzero)

lemma write_trigger_predict:
  assumes "v \<noteq> 0" and "prediction_mode st" and "v = nclasses st" and "\<not> first_prediction st"
  shows "write_trigger st env (TInt v) ts
     = (st\<lparr>calls := calls st @ InsertMarker v # prediction_request st env\<rparr>, None)"
proof -
  let ?s1 = "st\<lparr>calls := calls st @ [InsertMarker v]\<rparr>"
  have r: "prediction_request ?s1 env = prediction_request st env"
    by (rule prediction_request_self) simp_all
  have "write_trigger st env (TInt v) ts = (predict_class ?s1 env, None)"
    using assms
    by (simp add: write_trigger_def int_of_trigger_def board_insert_marker_nonzero)
  also have "predict_class ?s1 env = ?s1\<lparr>calls := calls ?s1 @ prediction_request ?s1 env\<rparr>"
    by (rule predict_class_eq)
  also have "\<dots> = st\<lparr>calls := calls st @ InsertMarker v # prediction_request st env\<rparr>"
    unfolding r by simp
  finally show ?thesis .
qed

lemma write_trigger_other:
  "v \<noteq> 0 \<Longrightarrow> \<not> (prediction_mode st \<and> v = nclasses st) \<Longrightarrow>
   write_trigger st env (TInt v) ts = (st\<lparr>calls := calls st @ [InsertMarker v]\<rparr>, None)"
  by (auto simp: write_trigger_def int_of_trigger_def board_insert_marker_nonzero)

lemma write_trigger_cases:
  obtains "write_trigger st env t ts = (st, None)"
  | e where "write_trigger st env t ts = (st, Some e)"
  | v where "t = TInt v" "v \<noteq> 0" "prediction_mode st" "v = nclasses st" "first_prediction st"
      "write_trigger st env t ts
         = (st\<lparr>first_prediction := False, calls := calls st @ [InsertMarker v]\<rparr>, None)"
  | v where "t = TInt v" "v \<noteq> 0" "prediction_mode st" "v = nclasses st" "\<not> first_prediction st"
      "write_trigger st env t ts
         = (st\<lparr>calls := calls st @ InsertMarker v # prediction_request st env\<rparr>, None)"
  | v where "t = TInt v" "v \<noteq> 0" "\<not> (prediction_mode st \<and> v = nclasses st)"
      "write_trigger st env t ts = (st\<lparr>calls := calls st @ [InsertMarker v]\<rparr>, None)"
proof (cases t)
  case TEmpty
  then show ?thesis using that(1) write_trigger_empty by simp
next
  case TBad
  then show ?thesis using that(2) write_trigger_bad by simp
next
  case (TInt v)
  show ?thesis
  proof (cases "v = 0")
    case True
    then show ?thesis using that(2) TInt write_trigger_zero by simp
  next
    case False
    show ?thesis
    proof (cases "prediction_mode st \<and> v = nclasses st")
      case no: False
      then show ?thesis using that(5) [of v] TInt False write_trigger_other by simp
    next
      case yes: True
      show ?thesis
      proof (cases "first_prediction st")
        case True
        then show ?thesis using that(3) [of v] TInt False yes write_trigger_skip by simp
      next
        case no: False
        then show ?thesis using that(4) [of v] TInt False yes write_trigger_predict by simp
      qed
    qed
  qed
qed

text \<open>What \<open>write_trigger\<close> leaves alone, and what it does to the flag.\<close>

lemma write_trigger_frame:
  "nclasses (fst (write_trigger st env t ts)) = nclasses st"
  "prediction_mode (fst (write_trigger st env t ts)) = prediction_mode st"
  "sampling_rate (fst (write_trigger st env t ts)) = sampling_rate st"
  "eeg_start (fst (write_trigger st env t ts)) = eeg_start st"
  "eeg_end (fst (write_trigger st env t ts)) = eeg_end st"
  "n_eeg_channels (fst (write_trigger st env t ts)) = n_eeg_channels st"
  "prediction_datapoints (fst (write_trigger st env t ts)) = prediction_datapoints st"
  by (rule write_trigger_cases [where st = st and env = env and t = t and ts = ts]; simp)+

lemma write_trigger_first_prediction:
  "first_prediction (fst (write_trigger st env t ts))
     = (first_prediction st \<and> \<not> (prediction_mode st \<and> t = TInt (nclasses st) \<and> nclasses st \<noteq> 0))"
proof (cases t)
  case TEmpty
  then show ?thesis by (simp add: write_trigger_empty)
next
  case TBad
  then show ?thesis by (simp add: write_trigger_bad)
next
  case (TInt v)
  show ?thesis
  proof (cases "v = 0")
    case True
    then show ?thesis using TInt by (auto simp: write_trigger_zero)
  next
    case False
    show ?thesis
    proof (cases "prediction_mode st \<and> v = nclasses st")
      case no: False
      then show ?thesis using TInt False by (auto simp: write_trigger_other)
    next
      case yes: True
      then show ?thesis
        using TInt False
        by (cases "first_prediction st") (simp_all add: write_trigger_skip write_trigger_predict)
    qed
  qed
qed

lemma new_calls_append: "calls st1 = calls st @ cs \<Longrightarrow> new_calls st st1 = cs"
  by (simp add: new_calls_def)

lemma new_calls_boundary:
  assumes "nclasses st \<noteq> 0" and "prediction_mode st"
  shows "new_calls st (fst (write_trigger st env (TInt (nclasses st)) ts))
           = (if first_prediction st then [InsertMarker (nclasses st)]
              else InsertMarker (nclasses st) # prediction_request st env)"
  using assms
  by (cases "first_prediction st")
    (simp_all add: write_trigger_skip write_trigger_predict new_calls_append)

lemma new_calls_off:
  assumes "v \<noteq> 0" and "\<not> prediction_mode st"
  shows "new_calls st (fst (write_trigger st env (TInt v) ts)) = [InsertMarker v]"
  using assms by (simp add: write_trigger_other new_calls_append)

lemma prediction_request_write_trigger:
  "prediction_request (fst (write_trigger st env t ts)) env1 = prediction_request st env1"
  by (rule prediction_request_self) (simp_all add: write_trigger_frame)

lemma deliver_running:
  "nclasses st \<noteq> 0 \<Longrightarrow> prediction_mode st \<Longrightarrow> \<not> first_prediction st \<Longrightarrow>
   \<forall>ev \<in> set evs. fst (snd ev) = TInt (nclasses st) \<Longrightarrow>
   fst (deliver st evs)
     = map (\<lambda>ev. InsertMarker (nclasses st) # prediction_request st (fst ev)) evs"
proof (induction evs arbitrary: st)
  case Nil
  then show ?case by simp
next
  case (Cons ev evs)
  obtain env t ts where ev: "ev = (env, t, ts)" by (cases ev)
  with Cons.prems have t: "t = TInt (nclasses st)" by simp
  let ?s = "fst (write_trigger st env t ts)"
  have s: "nclasses ?s = nclasses st" "prediction_mode ?s" "\<not> first_prediction ?s"
    using Cons.prems by (simp_all add: write_trigger_frame write_trigger_first_prediction)
  have "fst (deliver ?s evs)
      = map (\<lambda>ev. InsertMarker (nclasses ?s) # prediction_request ?s (fst ev)) evs"
    using Cons.IH [of ?s] Cons.prems s by simp
  then have rest: "fst (deliver ?s evs)
      = map (\<lambda>ev. InsertMarker (nclasses st) # prediction_request st (fst ev)) evs"
    by (simp add: s(1) prediction_request_write_trigger)
  have "new_calls st ?s = InsertMarker (nclasses st) # prediction_request st env"
    using Cons.prems t by (simp add: new_calls_boundary)
  then show ?case
    using rest by (auto simp: ev Let_def split: prod.splits)
qed

lemma deliver_off:
  "nclasses st \<noteq> 0 \<Longrightarrow> \<not> prediction_mode st \<Longrightarrow>
   \<forall>ev \<in> set evs. fst (snd ev) = TInt (nclasses st) \<Longrightarrow>
   fst (deliver st evs) = map (\<lambda>ev. [InsertMarker (nclasses st)]) evs"
proof (induction evs arbitrary: st)
  case Nil
  then show ?case by simp
next
  case (Cons ev evs)
  obtain env t ts where ev: "ev = (env, t, ts)" by (cases ev)
  with Cons.prems have t: "t = TInt (nclasses st)" by simp
  let ?s = "fst (write_trigger st env t ts)"
  have s: "nclasses ?s = nclasses st" "\<not> prediction_mode ?s"
    using Cons.prems by (simp_all add: write_trigger_frame)
  have rest: "fst (deliver ?s evs) = map (\<lambda>ev. [InsertMarker (nclasses st)]) evs"
    using Cons.IH [of ?s] Cons.prems s by simp
  have "new_calls st ?s = [InsertMarker (nclasses st)]"
    using Cons.prems t by (simp add: new_calls_off)
  then show ?case
    using rest by (auto simp: ev Let_def split: prod.splits)
qed

text \<open>
  C1, as the specification states it, fails: a boundary marker that is not the first one makes
  \<open>predict_class\<close> pull a window, but when conditioning that window raises, the exception is
  caught and logged and nothing is handed to the thread pool. With the notch box ticked and
  left empty, three boundary markers in prediction mode insert three markers and pull two
  windows, and no prediction is submitted.
\<close>

theorem no_submit_counterexample:
  "prediction_mode predicting_streamer \<and> first_prediction predicting_streamer
   \<and> nclasses predicting_streamer = 4
   \<and> fst (deliver predicting_streamer
            [(blank_notch_env, TInt 4, 0), (blank_notch_env, TInt 4, 0), (blank_notch_env, TInt 4, 0)])
       = [[InsertMarker 4],
          [InsertMarker 4, GetCurrentBoardData 500],
          [InsertMarker 4, GetCurrentBoardData 500]]
   \<and> filter is_submit (calls (snd (deliver predicting_streamer
            [(blank_notch_env, TInt 4, 0), (blank_notch_env, TInt 4, 0), (blank_notch_env, TInt 4, 0)])))
       = []"
  by (simp add: write_trigger_def int_of_trigger_def new_calls_def predict_class_def
      blank_notch_env_def apply_notch_filter_def py_float_def example_defs example_filter_defs)

text \<open>
  C1, amended. Let every event of a sequence carry the marker value \<open>nclasses\<close> (not 0, which
  the board refuses). If prediction mode is on and \<open>first_prediction\<close> is true, the first
  event only inserts its marker and clears the flag; every later event inserts its marker and
  makes exactly one prediction request: one pull of \<open>prediction_datapoints\<close> samples, followed
  by exactly one submission of the conditioned window to the thread pool when conditioning
  raises nothing, and by no submission when it raises. If prediction mode is off, every event
  only inserts its marker.
\<close>

theorem skip_first_prediction:
  assumes "\<forall>ev \<in> set evs. fst (snd ev) = TInt (nclasses st)" and "nclasses st \<noteq> 0"
  shows "(prediction_mode st \<and> first_prediction st \<and> evs \<noteq> [] \<longrightarrow>
            fst (deliver st evs)
              = [InsertMarker (nclasses st)]
                # map (\<lambda>ev. InsertMarker (nclasses st) # prediction_request st (fst ev)) (tl evs)
          \<and> \<not> first_prediction (snd (deliver st (take 1 evs))))
       \<and> (\<not> prediction_mode st \<longrightarrow>
            fst (deliver st evs) = map (\<lambda>ev. [InsertMarker (nclasses st)]) evs)"
proof -
  have off: "fst (deliver st evs) = map (\<lambda>ev. [InsertMarker (nclasses st)]) evs"
    if "\<not> prediction_mode st"
    using deliver_off [OF assms(2) that assms(1)] .
  have on: "fst (deliver st evs)
              = [InsertMarker (nclasses st)]
                # map (\<lambda>ev. InsertMarker (nclasses st) # prediction_request st (fst ev)) (tl evs)
          \<and> \<not> first_prediction (snd (deliver st (take 1 evs)))"
    if on: "prediction_mode st \<and> first_prediction st \<and> evs \<noteq> []"
  proof -
    obtain ev rest where evs: "evs = ev # rest" using on by (cases evs) auto
    obtain env t ts where ev: "ev = (env, t, ts)" by (cases ev)
    have t: "t = TInt (nclasses st)" using assms evs ev by simp
    let ?s = "fst (write_trigger st env t ts)"
    have s: "nclasses ?s = nclasses st" "prediction_mode ?s" "\<not> first_prediction ?s"
      using on t assms(2) by (simp_all add: write_trigger_frame write_trigger_first_prediction)
    have "fst (deliver ?s rest)
        = map (\<lambda>ev. InsertMarker (nclasses ?s) # prediction_request ?s (fst ev)) rest"
      using deliver_running [of ?s rest] s assms evs by simp
    then have rest: "fst (deliver ?s rest)
        = map (\<lambda>ev. InsertMarker (nclasses st) # prediction_request st (fst ev)) rest"
      by (simp add: s(1) prediction_request_write_trigger)
    have d: "new_calls st ?s = [InsertMarker (nclasses st)]"
      using on t assms(2) by (simp add: new_calls_boundary)
    show ?thesis
      using rest d s by (auto simp: evs ev Let_def split: prod.splits)
  qed
  show ?thesis using on off by blast
qed

theorem skip_first_prediction_witness:
  "fst (deliver predicting_streamer
          [(example_env, TInt 4, 0), (example_env, TInt 4, 7), (blank_notch_env, TInt 4, 0)])
     = [[InsertMarker 4],
        [InsertMarker 4, GetCurrentBoardData 500, Submit [[0, 1], [1, 3], [10, 20], [0, 0]]],
        [InsertMarker 4, GetCurrentBoardData 500]]
   \<and> fst (deliver ready_streamer
          [(example_env, TInt 4, 0), (example_env, TInt 4, 7), (blank_notch_env, TInt 4, 0)])
     = [[InsertMarker 4], [InsertMarker 4], [InsertMarker 4]]"
proof -
  let ?evs = "[(example_env, TInt 4, 0), (example_env, TInt 4, 7), (blank_notch_env, TInt 4, 0)]"
  have n: "nclasses predicting_streamer = 4" "nclasses ready_streamer = 4"
    by (simp_all add: example_defs)
  have on: "prediction_mode predicting_streamer" "first_prediction predicting_streamer"
    by (simp_all add: example_defs)
  have off: "\<not> prediction_mode ready_streamer"
    by (simp add: example_defs)
  have h1: "\<forall>ev \<in> set ?evs. fst (snd ev) = TInt (nclasses predicting_streamer)"
    by (simp add: n)
  have h2: "\<forall>ev \<in> set ?evs. fst (snd ev) = TInt (nclasses ready_streamer)"
    by (simp add: n)
  have z: "nclasses predicting_streamer \<noteq> 0" "nclasses ready_streamer \<noteq> 0"
    by (simp_all add: n)
  have p1: "prediction_request predicting_streamer example_env
      = [GetCurrentBoardData 500, Submit [[0, 1], [1, 3], [10, 20], [0, 0]]]"
    by (simp add: prediction_request_def example_defs example_filter_defs)
  have p2: "prediction_request predicting_streamer blank_notch_env = [GetCurrentBoardData 500]"
    by (simp add: prediction_request_def blank_notch_env_def apply_notch_filter_def py_float_def
        example_defs example_filter_defs)
  show ?thesis
    using skip_first_prediction [OF h1 z(1)] skip_first_prediction [OF h2 z(2)] on off
    by (simp add: n p1 p2)
qed

text \<open>
  C10. The \<open>timestamp\<close> argument has no effect: whatever the two timestamps (0 included, in
  which case the clock is read) and whatever the clock shows, \<open>write_trigger\<close> returns the
  same streamer, with the same calls to the board and the thread pool, and the same outcome.
\<close>

theorem write_trigger_ignores_timestamp:
  "write_trigger st (env\<lparr>now := n1\<rparr>) trigger ts1 = write_trigger st (env\<lparr>now := n2\<rparr>) trigger ts2"
proof -
  have "write_trigger st (env\<lparr>now := n\<rparr>) trigger ts = write_trigger st env trigger 0" for n ts
    by (simp add: write_trigger_def Let_def predict_class_now
        split: sum.splits prod.splits option.splits)
  then show ?thesis by simp
qed


text \<open>When the flag can change.\<close>

lemma train_classifier_first_prediction:
  "first_prediction (fst (train_classifier st env)) = first_prediction st"
  by (simp add: train_classifier_def Let_def record_call_def split: option.splits prod.splits)

lemma step_first_prediction:
  "\<not> first_prediction st \<Longrightarrow> \<not> first_prediction (step st ev)"
  by (cases ev)
    (simp_all add: write_trigger_first_prediction train_classifier_first_prediction
      set_prediction_mode_def set_train_start_def init_classifier_def record_call_def Let_def)

lemma run_first_prediction:
  "\<not> first_prediction st \<Longrightarrow> \<not> first_prediction (run st evs)"
  unfolding run_def
  by (induction evs arbitrary: st) (simp_all add: step_first_prediction)

text \<open>
  C3, as the specification states it, fails: after a boundary marker has cleared
  \<open>first_prediction\<close>, switching prediction mode off and on again leaves the flag cleared,
  and the next boundary marker is not skipped: its window is pulled and submitted.
\<close>

theorem restart_counterexample:
  "\<not> prediction_mode stopped_streamer
   \<and> prediction_mode (fst (set_prediction_mode stopped_streamer))
   \<and> \<not> first_prediction (fst (set_prediction_mode stopped_streamer))
   \<and> new_calls (fst (set_prediction_mode stopped_streamer))
        (fst (write_trigger (fst (set_prediction_mode stopped_streamer)) example_env (TInt 4) 0))
       = [InsertMarker 4, GetCurrentBoardData 500, Submit [[0, 1], [1, 3], [10, 20], [0, 0]]]"
  by (simp add: stopped_streamer_def write_trigger_def int_of_trigger_def example_defs
      new_calls_def predict_class_def example_filter_defs)

text \<open>
  C3, amended. \<open>first_prediction\<close> is true after construction. \<open>set_prediction_mode\<close> flips
  \<open>prediction_mode\<close> and leaves \<open>first_prediction\<close> as it was, and so do \<open>set_train_start\<close>,
  \<open>train_classifier\<close> and \<open>init_classifier\<close>. \<open>write_trigger\<close> clears the flag exactly when
  it receives the boundary value \<open>nclasses\<close> (not 0) in prediction mode, and no sequence of
  these methods sets a cleared flag again. So the first boundary marker after prediction mode
  is switched on is skipped (only the marker is inserted) if the flag is still true, and makes
  a prediction request if an earlier boundary marker has cleared it.
\<close>

theorem set_prediction_mode_keeps_first_prediction:
  "first_prediction (init c) \<and> \<not> prediction_mode (init c)
   \<and> first_prediction (fst (set_prediction_mode st)) = first_prediction st
   \<and> prediction_mode (fst (set_prediction_mode st)) = (\<not> prediction_mode st)
   \<and> first_prediction (set_train_start st env) = first_prediction st
   \<and> first_prediction (fst (train_classifier st env)) = first_prediction st
   \<and> first_prediction (init_classifier st) = first_prediction st
   \<and> first_prediction (fst (write_trigger st env trigger ts))
       = (first_prediction st
          \<and> \<not> (prediction_mode st \<and> trigger = TInt (nclasses st) \<and> nclasses st \<noteq> 0))
   \<and> (\<not> first_prediction st \<longrightarrow> \<not> first_prediction (run st evs))
   \<and> (\<not> prediction_mode st \<and> nclasses st \<noteq> 0 \<longrightarrow>
        new_calls (fst (set_prediction_mode st))
          (fst (write_trigger (fst (set_prediction_mode st)) env (TInt (nclasses st)) ts))
        = (if first_prediction st then [InsertMarker (nclasses st)]
           else InsertMarker (nclasses st) # prediction_request st env))"
proof -
  let ?s = "fst (set_prediction_mode st)"
  have i: "first_prediction (init c)" "\<not> prediction_mode (init c)"
    by (simp_all add: init_def Let_def)
  have f: "first_prediction ?s = first_prediction st" "prediction_mode ?s = (\<not> prediction_mode st)"
    "nclasses ?s = nclasses st"
    by (simp_all add: set_prediction_mode_def record_call_def Let_def)
  have o: "first_prediction (set_train_start st env) = first_prediction st"
    "first_prediction (init_classifier st) = first_prediction st"
    by (simp_all add: set_train_start_def init_classifier_def)
  have p: "prediction_request ?s env = prediction_request st env"
    by (rule prediction_request_self)
      (simp_all add: set_prediction_mode_def record_call_def Let_def)
  have n: "new_calls ?s (fst (write_trigger ?s env (TInt (nclasses st)) ts))
        = (if first_prediction st then [InsertMarker (nclasses st)]
           else InsertMarker (nclasses st) # prediction_request st env)"
    if "\<not> prediction_mode st \<and> nclasses st \<noteq> 0"
    using that f p new_calls_boundary [of ?s env ts] by simp
  show ?thesis
    using i f(1,2) o n train_classifier_first_prediction [of st env]
      write_trigger_first_prediction [of st env trigger ts] run_first_prediction [of st evs]
    by blast
qed

theorem set_prediction_mode_keeps_first_prediction_witness:
  "\<not> prediction_mode ready_streamer \<and> first_prediction ready_streamer
   \<and> new_calls predicting_streamer
        (fst (write_trigger predicting_streamer example_env (TInt 4) 0)) = [InsertMarker 4]
   \<and> \<not> prediction_mode stopped_streamer \<and> \<not> first_prediction stopped_streamer
   \<and> new_calls (fst (set_prediction_mode stopped_streamer))
        (fst (write_trigger (fst (set_prediction_mode stopped_streamer)) example_env (TInt 4) 0))
       = [InsertMarker 4, GetCurrentBoardData 500, Submit [[0, 1], [1, 3], [10, 20], [0, 0]]]
   \<and> \<not> first_prediction (run stopped_streamer
          [TogglePredicting, Marker example_env (TInt 2) 0, TrainStart example_env,
           TrainCommit example_env, Marker example_env (TInt 4) 0])"
proof -
  have a: "\<not> prediction_mode ready_streamer" "first_prediction ready_streamer"
    "nclasses ready_streamer = 4"
    by (simp_all add: example_defs)
  have b: "\<not> prediction_mode stopped_streamer" "\<not> first_prediction stopped_streamer"
    "nclasses stopped_streamer = 4"
    by (simp_all add: stopped_streamer_def write_trigger_def int_of_trigger_def example_defs)
  have p: "prediction_request stopped_streamer example_env
      = [GetCurrentBoardData 500, Submit [[0, 1], [1, 3], [10, 20], [0, 0]]]"
    by (simp add: prediction_request_def stopped_streamer_def write_trigger_def int_of_trigger_def
        example_defs example_filter_defs)
  show ?thesis
    using set_prediction_mode_keeps_first_prediction
        [where st = ready_streamer and env = example_env and ts = 0 and evs = "[]"]
      set_prediction_mode_keeps_first_prediction
        [where st = stopped_streamer and env = example_env and ts = 0
           and evs = "[TogglePredicting, Marker example_env (TInt 2) 0, TrainStart example_env,
                       TrainCommit example_env, Marker example_env (TInt 4) 0]"] a b
    by (simp add: predicting_streamer_def p)
qed

section \<open>Quality scoring: results\<close>

lemma quality_scan_first_match:
  "quality_scan table amplitude (''red'', 0) = first_match table amplitude"
proof (induction table)
  case Nil
  show ?case by (simp add: first_match_def)
next
  case (Cons row table)
  obtain low high label score where row: "row = (low, high, label, score)"
    by (cases row)
  show ?case
    using Cons.IH by (simp add: row first_match_def in_bucket_def)
qed

lemma percentile_single: "percentile [a] 75 = Some a"
  by (simp add: percentile_def)

text \<open>
  C4. \<open>get_channel_quality\<close> returns the label and score of the first row of the threshold
  table whose inclusive range holds the amplitude, and \<open>(red, 0)\<close> when no row does; this
  holds for the amplitude of any sample vector, and any amplitude \<open>a\<close> is the amplitude of the
  vector \<open>[a]\<close>. With the default table, amplitude 0 gives \<open>(green, 1)\<close>, -75 gives
  \<open>(yellow, 1/2)\<close> and 500 gives \<open>(red, 0)\<close>.
\<close>

theorem quality_first_match_wins:
  "get_channel_quality st eeg 75
     = map_option (\<lambda>amplitude. (fst (first_match (quality_thresholds st) amplitude), amplitude,
                               snd (first_match (quality_thresholds st) amplitude)))
         (percentile eeg 75)
   \<and> get_channel_quality st [a] 75
       = Some (fst (first_match (quality_thresholds st) a), a, snd (first_match (quality_thresholds st) a))
   \<and> get_channel_quality (init example_config) [0] 75 = Some (''green'', 0, 1)
   \<and> get_channel_quality (init example_config) [-75] 75 = Some (''yellow'', -75, 1/2)
   \<and> get_channel_quality (init example_config) [500] 75 = Some (''red'', 500, 0)"
proof -
  have g: "get_channel_quality st eeg 75
     = map_option (\<lambda>amplitude. (fst (first_match (quality_thresholds st) amplitude), amplitude,
                               snd (first_match (quality_thresholds st) amplitude)))
         (percentile eeg 75)" for st eeg
    by (simp add: get_channel_quality_def quality_scan_first_match split: option.splits prod.splits)
  have t: "quality_thresholds (init example_config) = default_quality_thresholds"
    by (simp add: init_def example_config_def Let_def)
  show ?thesis
    by (simp add: g percentile_single t first_match_def in_bucket_def default_quality_thresholds_def)
qed

lemma percentile_example:
  "percentile [-10, -20, -30, -40] 75 = Some (-35/2)"
  "percentile (map abs [-10, -20, -30, -40]) 75 = Some (65/2)"
  by code_simp+

text \<open>
  The percentile interpolates between two of the samples, so it lies between the smallest and
  the largest of them.
\<close>

lemma percentile_between:
  assumes "eeg \<noteq> []" and "0 \<le> q" and "q \<le> 100"
  shows "\<exists>a. percentile eeg q = Some a \<and> Min (set eeg) \<le> a \<and> a \<le> Max (set eeg)
           \<and> a = sort eeg ! nat \<lfloor>of_nat (length eeg - 1) * q / 100\<rfloor>
                 + (of_nat (length eeg - 1) * q / 100 - of_int \<lfloor>of_nat (length eeg - 1) * q / 100\<rfloor>)
                   * (sort eeg ! min (nat \<lfloor>of_nat (length eeg - 1) * q / 100\<rfloor> + 1) (length eeg - 1)
                      - sort eeg ! nat \<lfloor>of_nat (length eeg - 1) * q / 100\<rfloor>)"
proof -
  define n where "n = length eeg"
  define s where "s = sort eeg"
  define h :: rat where "h = of_nat (n - 1) * q / 100"
  define lo where "lo = nat \<lfloor>h\<rfloor>"
  define hi where "hi = min (lo + 1) (n - 1)"
  define g where "g = h - of_int \<lfloor>h\<rfloor>"
  define a where "a = s ! lo + g * (s ! hi - s ! lo)"
  have n: "0 < n" using assms(1) by (simp add: n_def)
  have h0: "0 \<le> h" using assms(2) by (simp add: h_def)
  have "h \<le> of_nat (n - 1) * 100 / 100"
    unfolding h_def using assms(3) by (intro divide_right_mono mult_left_mono) simp_all
  then have h1: "h \<le> of_nat (n - 1)" by simp
  have "\<lfloor>h\<rfloor> \<le> \<lfloor>of_nat (n - 1) :: rat\<rfloor>"
    using h1 by (rule floor_mono)
  then have "\<lfloor>h\<rfloor> \<le> int (n - 1)" by simp
  then have lo: "lo \<le> n - 1" unfolding lo_def by linarith
  have hi: "hi \<le> n - 1" "lo \<le> hi" using lo by (simp_all add: hi_def)
  have len: "length s = n" by (simp add: s_def n_def)
  have lo_lt: "lo < length s" and hi_lt: "hi < length s"
    using lo hi n len by arith+
  have srt: "sorted s" by (simp add: s_def)
  have mono: "s ! lo \<le> s ! hi"
    using sorted_nth_mono [OF srt hi(2) hi_lt] .
  have g0: "0 \<le> g" and g1: "g \<le> 1"
    unfolding g_def by linarith+
  have "0 \<le> g * (s ! hi - s ! lo)"
    using mono g0 by simp
  then have lower: "s ! lo \<le> a"
    by (simp add: a_def)
  have "g * (s ! hi - s ! lo) \<le> 1 * (s ! hi - s ! lo)"
    using mono g1 by (intro mult_right_mono) simp_all
  then have upper: "a \<le> s ! hi" by (simp add: a_def)
  have "s ! lo \<in> set s" "s ! hi \<in> set s"
    using nth_mem [OF lo_lt] nth_mem [OF hi_lt] by simp_all
  then have mem: "s ! lo \<in> set eeg" "s ! hi \<in> set eeg"
    by (simp_all add: s_def)
  have "Min (set eeg) \<le> s ! lo" "s ! hi \<le> Max (set eeg)"
    using mem by simp_all
  then have b: "Min (set eeg) \<le> a" "a \<le> Max (set eeg)"
    using lower upper by linarith+
  have p: "percentile eeg q = Some a"
    using assms
    by (simp add: percentile_def Let_def a_def g_def hi_def lo_def h_def s_def n_def)
  have "a = sort eeg ! nat \<lfloor>of_nat (length eeg - 1) * q / 100\<rfloor>
                 + (of_nat (length eeg - 1) * q / 100 - of_int \<lfloor>of_nat (length eeg - 1) * q / 100\<rfloor>)
                   * (sort eeg ! min (nat \<lfloor>of_nat (length eeg - 1) * q / 100\<rfloor> + 1) (length eeg - 1)
                      - sort eeg ! nat \<lfloor>of_nat (length eeg - 1) * q / 100\<rfloor>)"
    by (simp add: a_def g_def hi_def lo_def h_def s_def n_def)
  then show ?thesis using p b by blast
qed

text \<open>
  C5, as the specification states it, fails: the amplitude is the percentile of the samples
  themselves. For the samples -10, -20, -30, -40 it is -17.5, where the percentile of the
  absolute values is 32.5.
\<close>

theorem signed_percentile_counterexample:
  "get_channel_quality (init example_config) [-10, -20, -30, -40] 75 = Some (''green'', -35/2, 1)
   \<and> percentile (map abs [-10, -20, -30, -40]) 75 = Some (65/2)
   \<and> percentile [-10, -20, -30, -40] 75 \<noteq> percentile (map abs [-10, -20, -30, -40]) 75"
  using percentile_example
  by (simp add: get_channel_quality_def init_def example_config_def Let_def default_quality_thresholds_def)

text \<open>
  C5, amended. For every non-empty channel sample vector, the amplitude that
  \<open>get_channel_quality\<close> compares with the threshold table, and returns, is the 75th
  percentile of the signed samples: the value at position \<open>3 (n - 1) / 4\<close> of the sorted
  samples, interpolated linearly between neighbours. It lies between the smallest and the
  largest sample, so it is negative when all samples are; no absolute value is taken.
\<close>

theorem amplitude_is_signed_percentile:
  assumes "eeg \<noteq> []"
  shows "\<exists>amplitude.
           percentile eeg 75 = Some amplitude
         \<and> get_channel_quality st eeg 75
             = Some (fst (first_match (quality_thresholds st) amplitude), amplitude,
                     snd (first_match (quality_thresholds st) amplitude))
         \<and> Min (set eeg) \<le> amplitude \<and> amplitude \<le> Max (set eeg)
         \<and> amplitude
             = sort eeg ! nat \<lfloor>of_nat (length eeg - 1) * (75 :: rat) / 100\<rfloor>
               + (of_nat (length eeg - 1) * (75 :: rat) / 100 - of_int \<lfloor>of_nat (length eeg - 1) * (75 :: rat) / 100\<rfloor>)
                 * (sort eeg ! min (nat \<lfloor>of_nat (length eeg - 1) * (75 :: rat) / 100\<rfloor> + 1) (length eeg - 1)
                    - sort eeg ! nat \<lfloor>of_nat (length eeg - 1) * (75 :: rat) / 100\<rfloor>)"
proof -
  obtain a where a: "percentile eeg 75 = Some a" "Min (set eeg) \<le> a" "a \<le> Max (set eeg)"
    "a = sort eeg ! nat \<lfloor>of_nat (length eeg - 1) * (75 :: rat) / 100\<rfloor>
               + (of_nat (length eeg - 1) * (75 :: rat) / 100 - of_int \<lfloor>of_nat (length eeg - 1) * (75 :: rat) / 100\<rfloor>)
                 * (sort eeg ! min (nat \<lfloor>of_nat (length eeg - 1) * (75 :: rat) / 100\<rfloor> + 1) (length eeg - 1)
                    - sort eeg ! nat \<lfloor>of_nat (length eeg - 1) * (75 :: rat) / 100\<rfloor>)"
    using percentile_between [OF assms, of 75] by auto
  have "get_channel_quality st eeg 75
             = Some (fst (first_match (quality_thresholds st) a), a,
                     snd (first_match (quality_thresholds st) a))"
    by (simp add: get_channel_quality_def a(1) quality_scan_first_match split: prod.splits)
  then show ?thesis using a by blast
qed

theorem amplitude_is_signed_percentile_witness:
  "get_channel_quality (init example_config) [-50, -50] 75 = Some (''yellow'', -50, 1/2)
   \<and> percentile [-50, -50] 75 = Some (-50)"
proof -
  have ne: "[-50, -50] \<noteq> ([] :: rat list)" by simp
  obtain a where a: "percentile [-50, -50] 75 = Some a"
    "get_channel_quality (init example_config) [-50, -50] 75
       = Some (fst (first_match (quality_thresholds (init example_config)) a), a,
               snd (first_match (quality_thresholds (init example_config)) a))"
    "Min (set [-50, -50]) \<le> a" "a \<le> Max (set [-50, -50])"
    using amplitude_is_signed_percentile [OF ne, of "init example_config"] by blast
  have "a = -50" using a(3,4) by simp
  then show ?thesis
    using a(1,2)
    by (simp add: init_def example_config_def Let_def first_match_def in_bucket_def
        default_quality_thresholds_def)
qed

section \<open>Signal conditioning: results\<close>

text \<open>
  C6, as the specification states it, fails: \<open>apply_bandpass_filter\<close> detrends the channel
  before it checks the frequencies. With the bounds 10 and 5 (low above high), or 1 and 200
  (high above half the sampling rate 250), the samples 1, 3 become -1, 1.
\<close>

theorem invalid_bandpass_counterexample:
  "apply_bandpass_filter (init example_config) example_env [1, 3] 10 5 = ([-1, 1], None)
   \<and> apply_bandpass_filter (init example_config) example_env [1, 3] 1 200 = ([-1, 1], None)
   \<and> fst (apply_bandpass_filter (init example_config) example_env [1, 3] 10 5) \<noteq> [1, 3]"
  by (simp add: apply_bandpass_filter_def example_env_def detrend_constant_def mean_def init_def
      example_config_def Let_def true_div_def)

text \<open>
  C6, amended. For invalid bandpass parameters (low not below high, a negative frequency, or a
  frequency above half the sampling rate) \<open>apply_bandpass_filter\<close> applies no bandpass: it
  leaves the channel as the detrend leaves it, that is with its mean subtracted.
\<close>

theorem invalid_bandpass_detrends_only:
  assumes "start_freq \<ge> stop_freq \<or> start_freq < 0 \<or> stop_freq < 0
         \<or> start_freq > true_div (sampling_rate st) 2 \<or> stop_freq > true_div (sampling_rate st) 2"
  shows "apply_bandpass_filter st env ch_data start_freq stop_freq = detrend env ch_data
       \<and> (detrend env = detrend_constant \<and> ch_data \<noteq> [] \<longrightarrow>
            apply_bandpass_filter st env ch_data start_freq stop_freq
              = (map (\<lambda>x. x - mean ch_data) ch_data, None))"
proof -
  have "apply_bandpass_filter st env ch_data start_freq stop_freq = detrend env ch_data"
    using assms by (auto simp: apply_bandpass_filter_def split: prod.splits option.splits)
  then show ?thesis by (simp add: detrend_constant_def)
qed

theorem invalid_bandpass_detrends_only_witness:
  "apply_bandpass_filter (init example_config) example_env [1, 3] 10 5 = ([-1, 1], None)
   \<and> apply_bandpass_filter (init example_config) example_env [1, 3] 1 200 = detrend_constant [1, 3]"
proof -
  have fs: "true_div (sampling_rate (init example_config)) 2 = 125"
    by (simp add: init_def example_config_def Let_def true_div_def)
  have d: "detrend example_env = detrend_constant"
    by (simp add: example_env_def)
  have a: "apply_bandpass_filter (init example_config) example_env [1, 3] 10 5
             = detrend example_env [1, 3]"
    using invalid_bandpass_detrends_only [of 5 10 "init example_config" example_env "[1, 3]"]
    by simp
  have b: "apply_bandpass_filter (init example_config) example_env [1, 3] 1 200
             = detrend example_env [1, 3]"
    using invalid_bandpass_detrends_only [of 200 1 "init example_config" example_env "[1, 3]"] fs
    by simp
  show ?thesis
    using a b by (simp add: d detrend_constant_def mean_def)
qed

text \<open>
  The loop of \<open>filter_data_buffer\<close>: when it ends without an exception, every listed row
  has gone through \<open>filter_channel\<close> once, and every other row is as before.
\<close>

lemma filter_rows_rows:
  assumes "filter_rows st env counts data = (data1, None)" and "distinct counts"
  shows "length data1 = length data
       \<and> (\<forall>c \<in> set counts. eeg_start st + c < length data
             \<and> snd (filter_channel st env (data ! (eeg_start st + c))) = None)
       \<and> (\<forall>i < length data. data1 ! i =
             (if eeg_start st \<le> i \<and> i - eeg_start st \<in> set counts
              then fst (filter_channel st env (data ! i)) else data ! i))"
  using assms
proof (induction counts arbitrary: data)
  case Nil
  then show ?case by simp
next
  case (Cons c cs)
  let ?r = "eeg_start st + c"
  from Cons.prems(1) have inr: "c < min (eeg_end st) (length data) - eeg_start st"
    by (simp split: if_splits)
  then have r: "?r < length data" by simp
  obtain ch1 where ch: "filter_channel st env (data ! ?r) = (ch1, None)"
    and rest: "filter_rows st env cs (data[?r := ch1]) = (data1, None)"
    using Cons.prems(1) inr by (auto split: prod.splits option.splits)
  have d: "distinct cs" "c \<notin> set cs" using Cons.prems(2) by simp_all
  note ih = Cons.IH [OF rest d(1)]
  have len: "length data1 = length data" using ih by simp
  have ihn: "data1 ! i = (if eeg_start st \<le> i \<and> i - eeg_start st \<in> set cs
              then fst (filter_channel st env ((data[?r := ch1]) ! i)) else (data[?r := ch1]) ! i)"
    if "i < length data" for i
    using ih that by simp
  have rows: "\<forall>c' \<in> set (c # cs). eeg_start st + c' < length data
             \<and> snd (filter_channel st env (data ! (eeg_start st + c'))) = None"
  proof
    fix c' assume c': "c' \<in> set (c # cs)"
    show "eeg_start st + c' < length data
             \<and> snd (filter_channel st env (data ! (eeg_start st + c'))) = None"
    proof (cases "c' = c")
      case True
      then show ?thesis using r ch by simp
    next
      case False
      then have "c' \<in> set cs" using c' by simp
      moreover have "eeg_start st + c' \<noteq> ?r" using False by simp
      ultimately show ?thesis using ih by (auto simp: nth_list_update)
    qed
  qed
  have nth: "\<forall>i < length data. data1 ! i =
             (if eeg_start st \<le> i \<and> i - eeg_start st \<in> set (c # cs)
              then fst (filter_channel st env (data ! i)) else data ! i)"
  proof (intro allI impI)
    fix i assume i: "i < length data"
    show "data1 ! i = (if eeg_start st \<le> i \<and> i - eeg_start st \<in> set (c # cs)
              then fst (filter_channel st env (data ! i)) else data ! i)"
    proof (cases "i = ?r")
      case True
      then have "\<not> (eeg_start st \<le> i \<and> i - eeg_start st \<in> set cs)" using d by simp
      then have "data1 ! i = (data[?r := ch1]) ! i" using ihn [OF i] by auto
      then show ?thesis using True r ch by simp
    next
      case False
      then have ne: "\<not> (eeg_start st \<le> i \<and> i - eeg_start st = c)" by auto
      show ?thesis using ihn [OF i] False ne by (auto simp: nth_list_update)
    qed
  qed
  show ?case using len rows nth by blast
qed

lemma filter_channel_bandpass:
  assumes "filter_channel st env ch = (ch1, None)" and "bandpass_checked (ui env)"
  shows "\<exists>start_freq stop_freq d.
            bandpass_freq (bandpass_box_low (ui env)) = Inr start_freq
          \<and> bandpass_freq (bandpass_box_high (ui env)) = Inr stop_freq
          \<and> detrend env ch = (d, None)
          \<and> ch1 = fst (notch_stage st env
                    (if bandpass_params_ok st start_freq stop_freq
                     then fst (perform_bandpass env (sampling_rate st) start_freq stop_freq d)
                     else d))"
  using assms
  by (auto simp: filter_channel_def bandpass_stage_def apply_bandpass_filter_def bandpass_params_ok_def
      split: prod.splits option.splits sum.splits if_splits)

lemma filter_channel_no_bandpass:
  assumes "\<not> bandpass_checked (ui env)"
  shows "filter_channel st env ch = notch_stage st env ch"
  using assms by (simp add: filter_channel_def bandpass_stage_def)

text \<open>
  C7, as the specification states it, fails: the detrend is part of \<open>apply_bandpass_filter\<close>,
  which \<open>filter_data_buffer\<close> calls only when the bandpass box is ticked. With no box ticked
  the EEG row 1, 3 stays 1, 3, where the detrend would give -1, 1.
\<close>

theorem no_bandpass_no_detrend_counterexample:
  "\<not> bandpass_checked (ui example_env)
   \<and> filter_data_buffer (init example_config) example_env [[0, 1], [1, 3], [10, 20], [0, 0]]
       = ([[0, 1], [1, 3], [10, 20], [0, 0]], None)
   \<and> eeg_start (init example_config) = 1
   \<and> detrend example_env [1, 3] = ([-1, 1], None)
   \<and> fst (filter_data_buffer (init example_config) example_env [[0, 1], [1, 3], [10, 20], [0, 0]]) ! 1
       \<noteq> fst (detrend example_env ([[0, 1], [1, 3], [10, 20], [0, 0]] ! 1))"
  by (simp add: example_filter_defs init_def example_config_def Let_def detrend_constant_def mean_def)

text \<open>
  C7, amended. Let \<open>filter_data_buffer\<close> end without an exception, and take any EEG row.
  If the bandpass stage is enabled, the row is detrended first, and the bandpass (when its
  parameters are valid) and the notch stage act on the detrended samples; the detrend happens
  whether or not the parameters are valid and whether or not the notch stage is enabled.
  If the bandpass stage is disabled, the row goes to the notch stage as it is, and with both
  stages disabled the snapshot is unchanged.
\<close>

theorem detrend_when_bandpass_enabled:
  assumes ok: "filter_data_buffer st env data = (data1, None)"
    and lo: "eeg_start st \<le> i" and hi: "i < eeg_start st + n_eeg_channels st"
  shows "(bandpass_checked (ui env) \<longrightarrow>
           (\<exists>start_freq stop_freq d.
               bandpass_freq (bandpass_box_low (ui env)) = Inr start_freq
             \<and> bandpass_freq (bandpass_box_high (ui env)) = Inr stop_freq
             \<and> detrend env (data ! i) = (d, None)
             \<and> data1 ! i = fst (notch_stage st env
                    (if bandpass_params_ok st start_freq stop_freq
                     then fst (perform_bandpass env (sampling_rate st) start_freq stop_freq d)
                     else d))))
       \<and> (\<not> bandpass_checked (ui env) \<longrightarrow> data1 ! i = fst (notch_stage st env (data ! i)))
       \<and> (\<not> bandpass_checked (ui env) \<and> \<not> notch_checked (ui env) \<longrightarrow> data1 = data)"
proof -
  let ?n = "n_eeg_channels st"
  have rows: "filter_rows st env [0..<?n] data = (data1, None)"
    using ok by (simp add: filter_data_buffer_def)
  note fr = filter_rows_rows [OF rows distinct_upt]
  have len: "length data1 = length data" using fr by simp
  have c: "i - eeg_start st \<in> set [0..<?n]" using lo hi by auto
  have ilen: "i < length data" and none: "snd (filter_channel st env (data ! i)) = None"
    using fr c lo by fastforce+
  have row: "data1 ! i = fst (filter_channel st env (data ! i))"
    using fr ilen c lo by simp
  have fc: "filter_channel st env (data ! i) = (data1 ! i, None)"
    using row none by (simp add: prod_eq_iff)
  have a: "bandpass_checked (ui env) \<longrightarrow>
           (\<exists>start_freq stop_freq d.
               bandpass_freq (bandpass_box_low (ui env)) = Inr start_freq
             \<and> bandpass_freq (bandpass_box_high (ui env)) = Inr stop_freq
             \<and> detrend env (data ! i) = (d, None)
             \<and> data1 ! i = fst (notch_stage st env
                    (if bandpass_params_ok st start_freq stop_freq
                     then fst (perform_bandpass env (sampling_rate st) start_freq stop_freq d)
                     else d)))"
    using filter_channel_bandpass [OF fc] by blast
  have b: "\<not> bandpass_checked (ui env) \<longrightarrow> data1 ! i = fst (notch_stage st env (data ! i))"
    using row by (simp add: filter_channel_no_bandpass)
  have "data1 = data" if off: "\<not> bandpass_checked (ui env) \<and> \<not> notch_checked (ui env)"
  proof (rule nth_equalityI)
    show "length data1 = length data" by (rule len)
  next
    fix j assume "j < length data1"
    then have j: "j < length data" using len by simp
    have "filter_channel st env (data ! j) = (data ! j, None)"
      using off by (simp add: filter_channel_no_bandpass notch_stage_def)
    then show "data1 ! j = data ! j"
      using fr j by simp
  qed
  then show ?thesis using a b by blast
qed

theorem detrend_when_bandpass_enabled_witness:
  "filter_data_buffer (init example_config) bandpass_env [[0, 1], [1, 3], [10, 20], [0, 0]]
     = ([[0, 1], [-1, 1], [-5, 5], [0, 0]], None)
   \<and> bandpass_checked (ui bandpass_env)
   \<and> [[0, 1], [-1, 1], [-5, 5], [0, 0]] ! 1
       = fst (notch_stage (init example_config) bandpass_env (fst (detrend bandpass_env [1, 3])))
   \<and> \<not> bandpass_checked (ui example_env) \<and> \<not> notch_checked (ui example_env)
   \<and> filter_data_buffer (init example_config) example_env [[0, 1], [1, 3], [10, 20], [0, 0]]
       = ([[0, 1], [1, 3], [10, 20], [0, 0]], None)
   \<and> [1, 3] = fst (notch_stage (init example_config) example_env [1, 3])"
proof -
  let ?st = "init example_config"
  let ?data = "[[0, 1], [1, 3], [10, 20], [0, 0]] :: board_data"
  have lay: "eeg_start ?st = 1" "n_eeg_channels ?st = 2" "true_div (sampling_rate ?st) 2 = 125"
    by (simp_all add: init_def example_config_def Let_def true_div_def)
  have ui: "bandpass_checked (ui bandpass_env)"
    "bandpass_freq (bandpass_box_low (ui bandpass_env)) = Inr 10"
    "bandpass_freq (bandpass_box_high (ui bandpass_env)) = Inr 5"
    "\<not> bandpass_checked (ui example_env)" "\<not> notch_checked (ui example_env)"
    by (simp_all add: bandpass_env_def example_env_def no_filters_def bandpass_freq_def py_float_def)
  have ok1: "filter_data_buffer ?st bandpass_env ?data = ([[0, 1], [-1, 1], [-5, 5], [0, 0]], None)"
    by (simp add: bandpass_env_def example_filter_defs init_def example_config_def Let_def
        bandpass_freq_def py_float_def apply_bandpass_filter_def detrend_constant_def mean_def)
  have ok2: "filter_data_buffer ?st example_env ?data = (?data, None)"
    by (simp add: example_filter_defs init_def example_config_def Let_def)
  have l: "eeg_start ?st \<le> 1" "1 < eeg_start ?st + n_eeg_channels ?st"
    by (simp_all add: lay)
  obtain d where d: "detrend bandpass_env (?data ! 1) = (d, None)"
    "[[0, 1], [-1, 1], [-5, 5], [0, 0]] ! 1
       = fst (notch_stage ?st bandpass_env (if bandpass_params_ok ?st 10 5
              then fst (perform_bandpass bandpass_env (sampling_rate ?st) 10 5 d) else d))"
    using detrend_when_bandpass_enabled [OF ok1 l] ui by auto
  have "\<not> bandpass_params_ok ?st 10 5"
    by (simp add: bandpass_params_ok_def)
  then have r: "[[0, 1], [-1, 1], [-5, 5], [0, 0]] ! 1
       = fst (notch_stage ?st bandpass_env (fst (detrend bandpass_env [1, 3])))"
    using d by simp
  have r2: "[1, 3] = fst (notch_stage ?st example_env [1, 3])"
    using detrend_when_bandpass_enabled [OF ok2 l] ui by simp
  show ?thesis using ok1 ok2 r r2 ui by simp
qed

section \<open>Training: results\<close>

text \<open>
  C8. Let \<open>set_train_start\<close> run at time \<open>t0\<close> and \<open>train_classifier\<close> at a later time
  \<open>t1\<close>, with a positive sampling rate \<open>fs\<close>. Then \<open>train_classifier\<close> asks the board for
  \<open>floor((t1 - t0 + 1) * fs)\<close> samples, and, when conditioning that window raises nothing and
  the classifier exists, passes the conditioned window to the classifier's \<open>train\<close>; it makes
  no other call. For \<open>t1 = t0 + 5\<close> and \<open>fs = 250\<close> the pull is 1500 samples.
\<close>

theorem training_pull_length:
  assumes "now env0 < now env1" and "0 < sampling_rate st"
  shows "calls (fst (train_classifier (set_train_start st env0) env1))
           = calls st
             @ GetCurrentBoardData (training_samples (now env0) (now env1) (sampling_rate st))
             # (if snd (filter_data_buffer st env1
                      (board_window env1 (training_samples (now env0) (now env1) (sampling_rate st)))) = None
                   \<and> classifier_ready st
                then [Train (fst (filter_data_buffer st env1
                        (board_window env1 (training_samples (now env0) (now env1) (sampling_rate st)))))
                      (over_sample st)]
                else [])
       \<and> training_samples 100 105 250 = 1500
       \<and> calls (fst (train_classifier (set_train_start ready_streamer (example_env\<lparr>now := 100\<rparr>))
                 (example_env\<lparr>now := 105\<rparr>)))
           = [GetCurrentBoardData 1500, Train [[0, 1], [1, 3], [10, 20], [0, 0]] False]"
proof -
  let ?n = "training_samples (now env0) (now env1) (sampling_rate st)"
  let ?s0 = "set_train_start st env0"
  have "0 \<le> (now env1 - now env0 + 1) * of_int (sampling_rate st)"
    using assms by simp
  then have n: "py_int ((now env1 - now env0 + 1) * of_int (sampling_rate st)) = ?n"
    by (simp add: py_int_nonneg training_samples_def)
  have f: "filter_data_buffer (st\<lparr>start_training_time := x, calls := y\<rparr>) env1 data
             = filter_data_buffer st env1 data" for x y data
    by (rule filter_data_buffer_self) simp_all
  obtain d ex where fd: "filter_data_buffer st env1 (board_window env1 ?n) = (d, ex)"
    by (cases "filter_data_buffer st env1 (board_window env1 ?n)")
  have a: "calls (fst (train_classifier ?s0 env1))
           = calls st @ GetCurrentBoardData ?n
             # (if snd (filter_data_buffer st env1 (board_window env1 ?n)) = None \<and> classifier_ready st
                then [Train (fst (filter_data_buffer st env1 (board_window env1 ?n))) (over_sample st)]
                else [])"
    by (cases ex)
      (simp_all add: train_classifier_def Let_def set_train_start_def record_call_def n f fd)
  have b: "training_samples 100 105 250 = 1500"
    by (simp add: training_samples_def)
  have c: "calls (fst (train_classifier (set_train_start ready_streamer (example_env\<lparr>now := 100\<rparr>))
                 (example_env\<lparr>now := 105\<rparr>)))
           = [GetCurrentBoardData 1500, Train [[0, 1], [1, 3], [10, 20], [0, 0]] False]"
    by (simp add: train_classifier_def set_train_start_def example_defs example_filter_defs)
  show ?thesis using a b c by simp
qed

theorem training_pull_length_witness:
  "calls (fst (train_classifier (set_train_start ready_streamer (example_env\<lparr>now := 100\<rparr>))
                 (example_env\<lparr>now := 105\<rparr>)))
     = [GetCurrentBoardData 1500, Train [[0, 1], [1, 3], [10, 20], [0, 0]] False]
   \<and> calls (fst (train_classifier (set_train_start (init example_config) (example_env\<lparr>now := 7/2\<rparr>))
                 (example_env\<lparr>now := 8\<rparr>)))
     = [GetCurrentBoardData 1375]"
proof -
  have t: "now (example_env\<lparr>now := 100\<rparr>) < now (example_env\<lparr>now := 105\<rparr>)"
     "now (example_env\<lparr>now := 7/2\<rparr>) < now (example_env\<lparr>now := 8\<rparr>)" by simp_all
  have fs: "0 < sampling_rate ready_streamer" "0 < sampling_rate (init example_config)"
    by (simp_all add: example_defs)
  have v: "sampling_rate ready_streamer = 250" "sampling_rate (init example_config) = 250"
    "calls ready_streamer = []" "calls (init example_config) = []"
    "classifier_ready ready_streamer" "\<not> classifier_ready (init example_config)"
    "over_sample ready_streamer = False"
    by (simp_all add: example_defs)
  have n: "training_samples 100 105 250 = 1500" "training_samples (7/2) 8 250 = 1375"
    by (simp_all add: training_samples_def)
  have fd: "filter_data_buffer ready_streamer (example_env\<lparr>now := 105\<rparr>) (board_window (example_env\<lparr>now := 105\<rparr>) 1500)
     = ([[0, 1], [1, 3], [10, 20], [0, 0]], None)"
    by (simp add: example_defs example_filter_defs)
  show ?thesis
    using training_pull_length [OF t(1) fs(1)] training_pull_length [OF t(2) fs(2)]
    by (simp add: v n fd)
qed

end
